theory Spec2Isabelle
  imports Main "HOL-Library.Word"
begin

section \<open>Data model of the platform-mc facade and its engines\<close>

text \<open>
  The embedding follows \<^verbatim>\<open>platform-mc/manager.hpp\<close> (class \<^verbatim>\<open>Manager\<close>) and
  \<^verbatim>\<open>platform-mc/sensor_manager.hpp\<close> (class \<^verbatim>\<open>SensorManager\<close>). Member functions
  become state transformers on records of the member variables; a function that
  returns a value returns a pair of the value and the new state.
\<close>

subsection \<open>Scalar types and constants\<close>

text \<open>\<^verbatim>\<open>pldm_tid_t\<close> is \<^verbatim>\<open>uint8_t\<close>, event ids are \<^verbatim>\<open>uint16_t\<close>, sensor ids are
  \<^verbatim>\<open>uint16_t\<close>; \<^verbatim>\<open>size_t\<close> is taken at 64 bits, with the wrap-around of unsigned
  subtraction.\<close>

type_synonym pldm_tid_t = "8 word"
type_synonym uint8_t = "8 word"
type_synonym uint16_t = "16 word"
type_synonym uint32_t = "32 word"
type_synonym size_t = "64 word"
type_synonym SensorID = "16 word"
type_synonym Availability = bool

text \<open>Completion codes are C \<^verbatim>\<open>int\<close>s. The values are those of libpldm's
  \<^verbatim>\<open>base.h\<close>, an external library: success is 0, the generic error is 1.\<close>

definition PLDM_SUCCESS :: int where
  "PLDM_SUCCESS = 0"

definition PLDM_ERROR :: int where
  "PLDM_ERROR = 1"

text \<open>The null event id of libpldm's \<^verbatim>\<open>platform.h\<close> (the spec's \<^verbatim>\<open>eventId=NONE\<close>).\<close>

definition PLDM_PLATFORM_EVENT_ID_NULL :: uint16_t where
  "PLDM_PLATFORM_EVENT_ID_NULL = 0"

text \<open>The event-class tags the facade passes on: the three members of libpldm's
  enumeration of event types that \<^verbatim>\<open>manager.hpp\<close> names.\<close>

datatype event_class = PLDM_SENSOR_EVENT | PLDM_CPER_EVENT | PLDM_MESSAGE_POLL_EVENT

subsection \<open>Messages and byte pointers\<close>

text \<open>A \<^verbatim>\<open>pldm_msg\<close> is seen through its \<^verbatim>\<open>payload\<close> member: the bytes that follow the
  header in the received buffer.\<close>

record pldm_msg =
  payload :: "uint8_t list"

text \<open>A \<^verbatim>\<open>const uint8_t*\<close> into a buffer: the buffer it points into and the index
  reached by pointer arithmetic. Nothing is read at the time the pointer is formed.\<close>

record byte_ptr =
  region :: "uint8_t list"
  index :: size_t

definition payload_ptr :: "pldm_msg \<Rightarrow> byte_ptr" where
  "payload_ptr request = \<lparr>region = payload request, index = 0\<rparr>"

definition ptr_add :: "byte_ptr \<Rightarrow> size_t \<Rightarrow> byte_ptr" where
  "ptr_add p n = p\<lparr>index := index p + n\<rparr>"

text \<open>Reading \<open>n\<close> bytes through a pointer: defined only when the whole range lies
  inside the buffer (a read past the end is undefined behaviour in C++, here \<open>None\<close>).\<close>

definition bytes_at :: "byte_ptr \<Rightarrow> size_t \<Rightarrow> uint8_t list option" where
  "bytes_at p n =
     (if unat (index p) + unat n \<le> length (region p)
      then Some (take (unat n) (drop (unat (index p)) (region p)))
      else None)"

text \<open>The five arguments of one \<^verbatim>\<open>EventManager::handlePlatformEvent\<close> call.\<close>

record platform_event =
  ev_tid :: pldm_tid_t
  ev_eventId :: uint16_t
  ev_eventClass :: event_class
  ev_eventData :: byte_ptr
  ev_eventDataSize :: size_t

subsection \<open>Termini and sensors\<close>

text \<open>Modelled from the spec: \<^verbatim>\<open>terminus.hpp\<close> is not among the sources. A sensor is
  identified within its terminus by a SensorID and holds its last known reading or the
  unavailable (NaN) marker; a terminus owns a collection of sensors. The type of a
  reading is left open.\<close>

datatype 'v reading = Reading 'v | Unavailable

record 'v Sensor =
  sensorId :: SensorID
  reading :: "'v reading"

record 'v Terminus =
  terminusTid :: pldm_tid_t
  sensors :: "'v Sensor list"

type_synonym 'v TerminiMapper = "pldm_tid_t \<rightharpoonup> 'v Terminus"

subsection \<open>Sensor Polling Engine state\<close>

text \<open>An \<^verbatim>\<open>sdbusplus::Timer\<close> is seen as a recurring timer with its period; an
  \<^verbatim>\<open>exec::async_scope\<close> as the number of tasks spawned into it that have not finished
  and whether a stop has been requested.\<close>

datatype Timer = RecurringTimer (period_ms: uint32_t)

datatype async_scope = Scope (liveTasks: nat) (stopRequested: bool)

text \<open>The member variables of \<^verbatim>\<open>SensorManager\<close> that are values (the references to the
  event loop, the terminus manager, the registry and the manager are not state of the
  engine; the registry is the \<open>termini\<close> field of the facade below).\<close>

record SensorManager =
  pollingTime :: uint32_t
  sensorPollTimers :: "pldm_tid_t \<rightharpoonup> Timer"
  doSensorPollingTaskHandles :: "pldm_tid_t \<rightharpoonup> (async_scope \<times> int option)"
  availableState :: "pldm_tid_t \<rightharpoonup> Availability"
  roundRobinSensorItMap :: "pldm_tid_t \<rightharpoonup> SensorID"

subsection \<open>Collaborators of the facade\<close>

text \<open>Modelled from the spec: \<^verbatim>\<open>event_manager.hpp\<close> is not among the sources. The Event
  Dispatch Engine keeps its own availability copy keyed by TID, and
  \<^verbatim>\<open>updateAvailableState\<close> is a simple keyed write of it.\<close>

record EventManager =
  eventAvailableState :: "pldm_tid_t \<rightharpoonup> Availability"

definition EventManager_updateAvailableState ::
  "pldm_tid_t \<Rightarrow> Availability \<Rightarrow> EventManager \<Rightarrow> EventManager" where
  "EventManager_updateAvailableState tid state em =
     em\<lparr>eventAvailableState := (eventAvailableState em)(tid \<mapsto> state)\<rparr>"

text \<open>Modelled from the spec: \<^verbatim>\<open>terminus_manager.hpp\<close> is not among the sources. The
  Terminus Lifecycle Coordinator exposes \<^verbatim>\<open>toTid(endpoint) -> Option<TID>\<close>; the type
  \<open>'e\<close> stands for \<^verbatim>\<open>MctpInfo\<close>.\<close>

record 'e TerminusManager =
  toTid :: "'e \<rightharpoonup> pldm_tid_t"

text \<open>The calls the facade makes on its collaborators, as they appear in
  \<^verbatim>\<open>manager.hpp\<close>.\<close>

datatype 'e call =
    SM_startSensorPollTimer pldm_tid_t
  | SM_disableTerminusSensors pldm_tid_t
  | SM_updateAvailableState pldm_tid_t Availability
  | SM_startPolling pldm_tid_t
  | SM_stopPolling pldm_tid_t
  | EM_updateAvailableState pldm_tid_t Availability
  | EM_handlePlatformEvent platform_event
  | TM_updateMctpEndpointAvailability 'e Availability

fun is_TM_call :: "'e call \<Rightarrow> bool" where
  "is_TM_call (TM_updateMctpEndpointAvailability ep a) = True"
| "is_TM_call c = False"

subsection \<open>Facade state\<close>

text \<open>The members of \<^verbatim>\<open>Manager\<close>: the registry \<open>termini\<close> (shared by reference with the
  engines, so kept once, here), the three collaborators the claims are about, and
  \<open>trace\<close>, the calls made on the collaborators so far, in program order. The trace is
  an observation of the run, not a C++ member.\<close>

record ('e, 'v) Manager =
  termini :: "'v TerminiMapper"
  terminusManager :: "'e TerminusManager"
  sensorManager :: SensorManager
  eventManager :: EventManager
  trace :: "'e call list"

definition record_call :: "'e call \<Rightarrow> ('e, 'v) Manager \<Rightarrow> ('e, 'v) Manager" where
  "record_call c m = m\<lparr>trace := trace m @ [c]\<rparr>"

text \<open>\<^verbatim>\<open>EventManager::handlePlatformEvent\<close> is not among the sources: what it does to the
  engine and which completion code it returns is the parameter \<open>hpe\<close> of every function
  that reaches it.\<close>

type_synonym dispatch = "platform_event \<Rightarrow> EventManager \<Rightarrow> int \<times> EventManager"

definition eventManager_handlePlatformEvent ::
  "dispatch \<Rightarrow> platform_event \<Rightarrow> ('e, 'v) Manager \<Rightarrow> int \<times> ('e, 'v) Manager" where
  "eventManager_handlePlatformEvent hpe ev m =
     (case hpe ev (eventManager m) of
        (rc, em') \<Rightarrow> (rc, record_call (EM_handlePlatformEvent ev) (m\<lparr>eventManager := em'\<rparr>)))"

section \<open>Event ingestion (manager.hpp, lines 143 to 226)\<close>

definition handleSensorEvent ::
  "dispatch \<Rightarrow> pldm_msg \<Rightarrow> size_t \<Rightarrow> uint8_t \<Rightarrow> uint8_t \<Rightarrow> size_t \<Rightarrow>
     ('e, 'v) Manager \<Rightarrow> int \<times> ('e, 'v) Manager" where
  "handleSensorEvent hpe request payloadLength formatVersion tid eventDataOffset m =
     (let eventData = ptr_add (payload_ptr request) eventDataOffset;
          eventDataSize = payloadLength - eventDataOffset
      in case eventManager_handlePlatformEvent hpe
                \<lparr>ev_tid = tid, ev_eventId = PLDM_PLATFORM_EVENT_ID_NULL,
                 ev_eventClass = PLDM_SENSOR_EVENT, ev_eventData = eventData,
                 ev_eventDataSize = eventDataSize\<rparr> m of
           (rc, m') \<Rightarrow> (PLDM_SUCCESS, m'))"

definition handleCperEvent ::
  "dispatch \<Rightarrow> pldm_msg \<Rightarrow> size_t \<Rightarrow> uint8_t \<Rightarrow> uint8_t \<Rightarrow> size_t \<Rightarrow>
     ('e, 'v) Manager \<Rightarrow> int \<times> ('e, 'v) Manager" where
  "handleCperEvent hpe request payloadLength formatVersion tid eventDataOffset m =
     (let eventData = ptr_add (payload_ptr request) eventDataOffset;
          eventDataSize = payloadLength - eventDataOffset
      in case eventManager_handlePlatformEvent hpe
                \<lparr>ev_tid = tid, ev_eventId = PLDM_PLATFORM_EVENT_ID_NULL,
                 ev_eventClass = PLDM_CPER_EVENT, ev_eventData = eventData,
                 ev_eventDataSize = eventDataSize\<rparr> m of
           (rc, m') \<Rightarrow> (PLDM_SUCCESS, m'))"

definition handlePldmMessagePollEvent ::
  "dispatch \<Rightarrow> pldm_msg \<Rightarrow> size_t \<Rightarrow> uint8_t \<Rightarrow> uint8_t \<Rightarrow> size_t \<Rightarrow>
     ('e, 'v) Manager \<Rightarrow> int \<times> ('e, 'v) Manager" where
  "handlePldmMessagePollEvent hpe request payloadLength formatVersion tid eventDataOffset m =
     (let eventData = ptr_add (payload_ptr request) eventDataOffset;
          eventDataSize = payloadLength - eventDataOffset
      in case eventManager_handlePlatformEvent hpe
                \<lparr>ev_tid = tid, ev_eventId = PLDM_PLATFORM_EVENT_ID_NULL,
                 ev_eventClass = PLDM_MESSAGE_POLL_EVENT, ev_eventData = eventData,
                 ev_eventDataSize = eventDataSize\<rparr> m of
           (rc, m') \<Rightarrow> (PLDM_SUCCESS, m'))"

definition handlePolledCperEvent ::
  "dispatch \<Rightarrow> pldm_tid_t \<Rightarrow> uint16_t \<Rightarrow> byte_ptr \<Rightarrow> size_t \<Rightarrow>
     ('e, 'v) Manager \<Rightarrow> int \<times> ('e, 'v) Manager" where
  "handlePolledCperEvent hpe tid eventId eventData eventDataSize m =
     eventManager_handlePlatformEvent hpe
       \<lparr>ev_tid = tid, ev_eventId = eventId, ev_eventClass = PLDM_CPER_EVENT,
        ev_eventData = eventData, ev_eventDataSize = eventDataSize\<rparr> m"

section \<open>Sensor Polling Engine (sensor_manager.hpp)\<close>

subsection \<open>Availability copy of the engine (lines 64 to 78)\<close>

text \<open>\<^verbatim>\<open>availableState[tid] = state\<close>: a keyed write that inserts or overwrites.\<close>

definition SensorManager_updateAvailableState ::
  "pldm_tid_t \<Rightarrow> Availability \<Rightarrow> SensorManager \<Rightarrow> SensorManager" where
  "SensorManager_updateAvailableState tid state sm =
     sm\<lparr>availableState := (availableState sm)(tid \<mapsto> state)\<rparr>"

text \<open>\<^verbatim>\<open>std::map::operator[]\<close> used as a read: an absent key is first inserted with the
  value-initialised element, \<^verbatim>\<open>false\<close>.\<close>

definition map_subscript ::
  "(pldm_tid_t \<rightharpoonup> Availability) \<Rightarrow> pldm_tid_t \<Rightarrow> Availability \<times> (pldm_tid_t \<rightharpoonup> Availability)" where
  "map_subscript mp k =
     (case mp k of None \<Rightarrow> (False, mp(k \<mapsto> False)) | Some v \<Rightarrow> (v, mp))"

definition getAvailableState :: "pldm_tid_t \<Rightarrow> SensorManager \<Rightarrow> bool \<times> SensorManager" where
  "getAvailableState tid sm =
     (if \<not> (tid \<in> dom (availableState sm)) then (False, sm)
      else case map_subscript (availableState sm) tid of
             (v, mp') \<Rightarrow> (v, sm\<lparr>availableState := mp'\<rparr>))"

text \<open>A run of \<^verbatim>\<open>updateAvailableState\<close> calls on the engine, oldest first.\<close>

fun updateAvailableStates ::
  "(pldm_tid_t \<times> Availability) list \<Rightarrow> SensorManager \<Rightarrow> SensorManager" where
  "updateAvailableStates [] sm = sm"
| "updateAvailableStates ((t, b) # ups) sm =
     updateAvailableStates ups (SensorManager_updateAvailableState t b sm)"

subsection \<open>Timers, sensors and polling tasks\<close>

text \<open>Modelled from the spec: \<^verbatim>\<open>sensor_manager.cpp\<close>, which defines
  \<^verbatim>\<open>startSensorPollTimer\<close>, is not among the sources. It arms a recurring timer at the
  configured polling interval for the TID if not already armed; idempotent.\<close>

definition startSensorPollTimer :: "pldm_tid_t \<Rightarrow> SensorManager \<Rightarrow> SensorManager" where
  "startSensorPollTimer tid sm =
     (if tid \<in> dom (sensorPollTimers sm) then sm
      else sm\<lparr>sensorPollTimers := (sensorPollTimers sm)(tid \<mapsto> RecurringTimer (pollingTime sm))\<rparr>)"

text \<open>Modelled from the spec: the sensor's own \<^verbatim>\<open>markUnavailable()\<close> capability, absent
  with \<^verbatim>\<open>terminus.hpp\<close>.\<close>

definition markUnavailable :: "'v Sensor \<Rightarrow> 'v Sensor" where
  "markUnavailable s = s\<lparr>reading := Unavailable\<rparr>"

text \<open>Modelled from the spec: \<^verbatim>\<open>sensor_manager.cpp\<close>, which defines
  \<^verbatim>\<open>disableTerminusSensors\<close>, is not among the sources. It marks every sensor of the
  TID unavailable/NaN. The sensors live in the registry, which the engine holds by
  reference, so the function acts on the registry.\<close>

definition disableTerminusSensors :: "pldm_tid_t \<Rightarrow> 'v TerminiMapper \<Rightarrow> 'v TerminiMapper" where
  "disableTerminusSensors tid ts =
     (case ts tid of
        None \<Rightarrow> ts
      | Some t \<Rightarrow> ts(tid \<mapsto> t\<lparr>sensors := map markUnavailable (sensors t)\<rparr>))"

text \<open>The readings of the sensors of a TID, in the order of the collection, and their
  number (none for a TID that is not in the registry).\<close>

definition sensorReadings :: "'v TerminiMapper \<Rightarrow> pldm_tid_t \<Rightarrow> 'v reading list" where
  "sensorReadings ts tid = (case ts tid of None \<Rightarrow> [] | Some t \<Rightarrow> map reading (sensors t))"

definition sensorCount :: "'v TerminiMapper \<Rightarrow> pldm_tid_t \<Rightarrow> nat" where
  "sensorCount ts tid = (case ts tid of None \<Rightarrow> 0 | Some t \<Rightarrow> length (sensors t))"

definition spawn :: "async_scope \<Rightarrow> async_scope" where
  "spawn sc = Scope (Suc (liveTasks sc)) (stopRequested sc)"

definition finish :: "async_scope \<Rightarrow> async_scope" where
  "finish sc = Scope (liveTasks sc - 1) (stopRequested sc)"

definition request_stop :: "async_scope \<Rightarrow> async_scope" where
  "request_stop sc = Scope (liveTasks sc) True"

text \<open>Modelled from the spec: \<^verbatim>\<open>sensor_manager.cpp\<close>, which defines \<^verbatim>\<open>startPolling\<close>, is
  not among the sources. If a task handle already exists and is marked running for the
  TID (its completion code is still empty), this is a no-op; otherwise it launches the
  polling task and records its handle as running.\<close>

definition startPolling :: "pldm_tid_t \<Rightarrow> SensorManager \<Rightarrow> SensorManager" where
  "startPolling tid sm =
     (case doSensorPollingTaskHandles sm tid of
        Some (sc, None) \<Rightarrow> sm
      | Some (sc, Some rc) \<Rightarrow>
          sm\<lparr>doSensorPollingTaskHandles :=
               (doSensorPollingTaskHandles sm)(tid \<mapsto> (spawn sc, None))\<rparr>
      | None \<Rightarrow>
          sm\<lparr>doSensorPollingTaskHandles :=
               (doSensorPollingTaskHandles sm)(tid \<mapsto> (spawn (Scope 0 False), None))\<rparr>)"

text \<open>Modelled from the spec: the end of \<^verbatim>\<open>doSensorPollingTask\<close> (in the absent
  \<^verbatim>\<open>sensor_manager.cpp\<close>): the task completes with a completion code, clearing the
  running marker. Only a running task can complete.\<close>

definition pollingTaskCompleted :: "pldm_tid_t \<Rightarrow> int \<Rightarrow> SensorManager \<Rightarrow> SensorManager" where
  "pollingTaskCompleted tid rc sm =
     (case doSensorPollingTaskHandles sm tid of
        Some (sc, None) \<Rightarrow>
          sm\<lparr>doSensorPollingTaskHandles :=
               (doSensorPollingTaskHandles sm)(tid \<mapsto> (finish sc, Some rc))\<rparr>
      | Some (sc, Some rc') \<Rightarrow> sm
      | None \<Rightarrow> sm)"

text \<open>Modelled from the spec: \<^verbatim>\<open>sensor_manager.cpp\<close>, which defines \<^verbatim>\<open>stopPolling\<close>, is
  not among the sources. It cancels the running task of the TID if any, cooperatively
  (the task stays live until it observes the request or completes), and removes the
  timer.\<close>

definition stopPolling :: "pldm_tid_t \<Rightarrow> SensorManager \<Rightarrow> SensorManager" where
  "stopPolling tid sm =
     (let handles' =
            (case doSensorPollingTaskHandles sm tid of
               None \<Rightarrow> doSensorPollingTaskHandles sm
             | Some (sc, rc) \<Rightarrow> (doSensorPollingTaskHandles sm)(tid \<mapsto> (request_stop sc, rc)))
      in sm\<lparr>sensorPollTimers := (sensorPollTimers sm)(tid := None),
            doSensorPollingTaskHandles := handles'\<rparr>)"



text \<open>The number of live polling tasks of a TID.\<close>

definition liveTaskCount :: "SensorManager \<Rightarrow> pldm_tid_t \<Rightarrow> nat" where
  "liveTaskCount sm tid =
     (case doSensorPollingTaskHandles sm tid of
        None \<Rightarrow> 0
      | Some (sc, rc) \<Rightarrow> liveTasks sc)"

text \<open>The engine as constructed: all member maps empty.\<close>

definition newSensorManager :: "uint32_t \<Rightarrow> SensorManager" where
  "newSensorManager t =
     \<lparr>pollingTime = t, sensorPollTimers = Map.empty, doSensorPollingTaskHandles = Map.empty,
      availableState = Map.empty, roundRobinSensorItMap = Map.empty\<rparr>"

text \<open>The operations that change the engine: its public operations and the completion
  of a polling task. A history of the engine is a list of them, oldest first.\<close>

datatype polling_op =
    StartPolling pldm_tid_t
  | StopPolling pldm_tid_t
  | TaskCompleted pldm_tid_t int
  | StartSensorPollTimer pldm_tid_t
  | UpdateAvailableState pldm_tid_t Availability

fun step :: "polling_op \<Rightarrow> SensorManager \<Rightarrow> SensorManager" where
  "step (StartPolling tid) sm = startPolling tid sm"
| "step (StopPolling tid) sm = stopPolling tid sm"
| "step (TaskCompleted tid rc) sm = pollingTaskCompleted tid rc sm"
| "step (StartSensorPollTimer tid) sm = startSensorPollTimer tid sm"
| "step (UpdateAvailableState tid state) sm = SensorManager_updateAvailableState tid state sm"

fun run :: "polling_op list \<Rightarrow> SensorManager \<Rightarrow> SensorManager" where
  "run [] sm = sm"
| "run (x # xs) sm = run xs (step x sm)"

text \<open>A task handle agrees with its scope: a handle marked running has exactly one live
  task, a handle with a completion code has none.\<close>

definition handle_consistent :: "SensorManager \<Rightarrow> pldm_tid_t \<Rightarrow> bool" where
  "handle_consistent sm tid =
     (case doSensorPollingTaskHandles sm tid of
        None \<Rightarrow> True
      | Some (sc, rc) \<Rightarrow> liveTasks sc = (if rc = None then 1 else 0))"

section \<open>Availability and polling control of the facade (manager.hpp, lines 85 to 131)\<close>

definition updateAvailableState ::
  "pldm_tid_t \<Rightarrow> Availability \<Rightarrow> ('e, 'v) Manager \<Rightarrow> ('e, 'v) Manager" where
  "updateAvailableState tid state m =
     (if tid \<in> dom (termini m) then
        (let m1 = record_call (SM_updateAvailableState tid state)
                    (m\<lparr>sensorManager :=
                         SensorManager_updateAvailableState tid state (sensorManager m)\<rparr>);
             m2 = record_call (EM_updateAvailableState tid state)
                    (m1\<lparr>eventManager :=
                          EventManager_updateAvailableState tid state (eventManager m1)\<rparr>)
         in m2)
      else m)"

text \<open>Modelled from the spec: \<^verbatim>\<open>TerminusManager::updateMctpEndpointAvailability\<close> is not
  among the sources; the Coordinator is external and the facade only forwards the
  notification to it, which the trace records.\<close>

definition terminusManager_updateMctpEndpointAvailability ::
  "'e \<Rightarrow> Availability \<Rightarrow> ('e, 'v) Manager \<Rightarrow> ('e, 'v) Manager" where
  "terminusManager_updateMctpEndpointAvailability mctpInfo availability m =
     record_call (TM_updateMctpEndpointAvailability mctpInfo availability) m"

definition updateMctpEndpointAvailability ::
  "'e \<Rightarrow> Availability \<Rightarrow> ('e, 'v) Manager \<Rightarrow> ('e, 'v) Manager" where
  "updateMctpEndpointAvailability mctpInfo availability m =
     (let tid = toTid (terminusManager m) mctpInfo;
          m3 = (case tid of
                  Some t \<Rightarrow>
                    (let m1 = (if availability
                               then record_call (SM_startSensorPollTimer t)
                                      (m\<lparr>sensorManager := startSensorPollTimer t (sensorManager m)\<rparr>)
                               else record_call (SM_disableTerminusSensors t)
                                      (m\<lparr>termini := disableTerminusSensors t (termini m)\<rparr>))
                     in updateAvailableState t availability m1)
                | None \<Rightarrow> m)
      in terminusManager_updateMctpEndpointAvailability mctpInfo availability m3)"

text \<open>The calls \<^verbatim>\<open>updateMctpEndpointAvailability\<close> makes on the two engines before it
  reaches the Coordinator, read off its body: none for an unresolved endpoint.\<close>

definition engine_calls :: "'e \<Rightarrow> Availability \<Rightarrow> ('e, 'v) Manager \<Rightarrow> 'e call list" where
  "engine_calls mctpInfo availability m =
     (case toTid (terminusManager m) mctpInfo of
        None \<Rightarrow> []
      | Some t \<Rightarrow>
          (if availability then SM_startSensorPollTimer t else SM_disableTerminusSensors t) #
          (if t \<in> dom (termini m)
           then [SM_updateAvailableState t availability, EM_updateAvailableState t availability]
           else []))"

definition startSensorPolling :: "pldm_tid_t \<Rightarrow> ('e, 'v) Manager \<Rightarrow> ('e, 'v) Manager" where
  "startSensorPolling tid m =
     record_call (SM_startPolling tid) (m\<lparr>sensorManager := startPolling tid (sensorManager m)\<rparr>)"

definition stopSensorPolling :: "pldm_tid_t \<Rightarrow> ('e, 'v) Manager \<Rightarrow> ('e, 'v) Manager" where
  "stopSensorPolling tid m =
     record_call (SM_stopPolling tid) (m\<lparr>sensorManager := stopPolling tid (sensorManager m)\<rparr>)"

text \<open>The calls a run has added to the trace.\<close>

definition new_calls :: "('e, 'v) Manager \<Rightarrow> ('e, 'v) Manager \<Rightarrow> 'e call list" where
  "new_calls m m' = drop (length (trace m)) (trace m')"

section \<open>Concrete inputs\<close>

text \<open>Two event engines: one whose handlers accept every event, one whose handlers
  fail on every event.\<close>

definition accepting_engine :: dispatch where
  "accepting_engine ev em = (PLDM_SUCCESS, em)"

definition failing_engine :: dispatch where
  "failing_engine ev em = (PLDM_ERROR, em)"

text \<open>A request with a payload of ten bytes.\<close>

definition request10 :: pldm_msg where
  "request10 = \<lparr>payload = [0, 1, 2, 3, 4, 5, 6, 7, 8, 9]\<rparr>"

text \<open>A facade with terminus 1 in the registry, two sensors with readings, endpoint 7
  resolving to TID 1, the polling timer of TID 1 armed, both availability copies true.\<close>

definition sensorManager1 :: SensorManager where
  "sensorManager1 =
     \<lparr>pollingTime = 1000,
      sensorPollTimers = [1 \<mapsto> RecurringTimer 1000],
      doSensorPollingTaskHandles = Map.empty,
      availableState = [1 \<mapsto> True],
      roundRobinSensorItMap = Map.empty\<rparr>"

definition manager1 :: "(nat, int) Manager" where
  "manager1 =
     \<lparr>termini = [1 \<mapsto> \<lparr>terminusTid = 1,
                        sensors = [\<lparr>sensorId = 10, reading = Reading 42\<rparr>,
                                   \<lparr>sensorId = 11, reading = Reading 7\<rparr>]\<rparr>],
      terminusManager = \<lparr>toTid = [7 \<mapsto> 1]\<rparr>,
      sensorManager = sensorManager1,
      eventManager = \<lparr>eventAvailableState = [1 \<mapsto> True]\<rparr>,
      trace = []\<rparr>"

section \<open>Auxiliary facts\<close>

lemmas handler_defs = handleSensorEvent_def handleCperEvent_def handlePldmMessagePollEvent_def
  handlePolledCperEvent_def eventManager_handlePlatformEvent_def record_call_def
  payload_ptr_def ptr_add_def Let_def

lemmas engine_defs = startPolling_def stopPolling_def pollingTaskCompleted_def
  startSensorPollTimer_def SensorManager_updateAvailableState_def spawn_def finish_def
  request_stop_def

lemma unat_wrapped_sub:
  "(a :: size_t) < b \<Longrightarrow> unat (a - b) = 2 ^ 64 - (unat b - unat a)"
  by (simp add: unat_sub_if' word_less_nat_alt)

subsection \<open>Effects of the availability functions, field by field\<close>

lemma dom_disableTerminusSensors: "dom (disableTerminusSensors tid ts) = dom ts"
  by (auto simp: disableTerminusSensors_def split: option.splits)

lemma sensorReadings_disableTerminusSensors:
  "sensorReadings (disableTerminusSensors tid ts) tid = replicate (sensorCount ts tid) Unavailable"
  by (simp add: sensorReadings_def sensorCount_def disableTerminusSensors_def markUnavailable_def
      map_replicate_const comp_def split: option.splits)

lemma termini_updateAvailableState: "termini (updateAvailableState tid state m) = termini m"
  by (simp add: updateAvailableState_def record_call_def Let_def)

lemma sensorManager_updateAvailableState:
  "sensorManager (updateAvailableState tid state m) =
     (if tid \<in> dom (termini m) then SensorManager_updateAvailableState tid state (sensorManager m)
      else sensorManager m)"
  by (simp add: updateAvailableState_def record_call_def Let_def)

lemma eventManager_updateAvailableState:
  "eventManager (updateAvailableState tid state m) =
     (if tid \<in> dom (termini m) then EventManager_updateAvailableState tid state (eventManager m)
      else eventManager m)"
  by (simp add: updateAvailableState_def record_call_def Let_def)

lemma trace_updateAvailableState:
  "trace (updateAvailableState tid state m) =
     trace m @ (if tid \<in> dom (termini m)
                then [SM_updateAvailableState tid state, EM_updateAvailableState tid state] else [])"
  by (simp add: updateAvailableState_def record_call_def Let_def)

lemma termini_unavailable:
  "toTid (terminusManager m) ep = Some tid \<Longrightarrow>
   termini (updateMctpEndpointAvailability ep False m) = disableTerminusSensors tid (termini m)"
  by (simp add: updateMctpEndpointAvailability_def terminusManager_updateMctpEndpointAvailability_def
      record_call_def Let_def termini_updateAvailableState)

lemma sensorManager_unavailable:
  "toTid (terminusManager m) ep = Some tid \<Longrightarrow>
   sensorManager (updateMctpEndpointAvailability ep False m) =
     (if tid \<in> dom (termini m) then SensorManager_updateAvailableState tid False (sensorManager m)
      else sensorManager m)"
  by (simp add: updateMctpEndpointAvailability_def terminusManager_updateMctpEndpointAvailability_def
      record_call_def Let_def sensorManager_updateAvailableState dom_disableTerminusSensors)

lemma eventManager_unavailable:
  "toTid (terminusManager m) ep = Some tid \<Longrightarrow>
   eventManager (updateMctpEndpointAvailability ep False m) =
     (if tid \<in> dom (termini m) then EventManager_updateAvailableState tid False (eventManager m)
      else eventManager m)"
  by (simp add: updateMctpEndpointAvailability_def terminusManager_updateMctpEndpointAvailability_def
      record_call_def Let_def eventManager_updateAvailableState dom_disableTerminusSensors)

lemma trace_updateMctpEndpointAvailability:
  "trace (updateMctpEndpointAvailability ep a m) =
     trace m @ engine_calls ep a m @ [TM_updateMctpEndpointAvailability ep a]"
  by (simp add: updateMctpEndpointAvailability_def terminusManager_updateMctpEndpointAvailability_def
      engine_calls_def record_call_def Let_def trace_updateAvailableState dom_disableTerminusSensors
      split: option.splits)

lemma no_TM_in_engine_calls: "filter is_TM_call (engine_calls ep a m) = []"
  by (simp add: engine_calls_def split: option.splits)

subsection \<open>The task-handle invariant of the polling engine\<close>

lemma handle_consistent_step:
  "handle_consistent sm tid \<Longrightarrow> handle_consistent (step x sm) tid"
  by (cases x) (auto simp: handle_consistent_def engine_defs Let_def split: option.splits)

lemma handle_consistent_run:
  "handle_consistent sm tid \<Longrightarrow> handle_consistent (run xs sm) tid"
  by (induction xs arbitrary: sm) (simp_all add: handle_consistent_step)

lemma handle_consistent_new: "handle_consistent (newSensorManager t) tid"
  by (simp add: handle_consistent_def newSensorManager_def)

lemma consistent_live_le: "handle_consistent sm tid \<Longrightarrow> liveTaskCount sm tid \<le> 1"
  by (auto simp: handle_consistent_def liveTaskCount_def split: option.splits)

lemma consistent_start_live:
  "handle_consistent sm tid \<Longrightarrow> liveTaskCount (startPolling tid sm) tid = 1"
  by (auto simp: handle_consistent_def liveTaskCount_def startPolling_def spawn_def
      split: option.splits)

lemma startPolling_idem: "startPolling tid (startPolling tid sm) = startPolling tid sm"
  by (auto simp: startPolling_def split: option.splits)

subsection \<open>The stop flow of the polling task\<close>



subsection \<open>The availability copy of the polling engine\<close>

lemma availableState_updateAvailableStates:
  "\<not> (tid \<in> set (map fst ups)) \<Longrightarrow>
   availableState (updateAvailableStates ups sm) tid = availableState sm tid"
  by (induction ups sm rule: updateAvailableStates.induct)
     (auto simp: SensorManager_updateAvailableState_def)

section \<open>Event ingestion: offsets, return codes and the forwarded tuple\<close>

text \<open>
  Claim C1, as amended. The claim says that a push-style handler called with
  \<open>eventDataOffset\<close> greater than \<open>payloadLength\<close> returns a malformed-input error and
  dispatches nothing. The handlers have no such check. What holds: for every call of
  \<open>handleSensorEvent\<close>, \<open>handleCperEvent\<close> or \<open>handlePldmMessagePollEvent\<close> in which
  \<open>eventDataOffset\<close> exceeds \<open>payloadLength\<close>, the handler returns \<open>PLDM_SUCCESS\<close> and
  makes exactly one call of the Event Dispatch Engine, whose size argument is
  \<open>payloadLength - eventDataOffset\<close> in unsigned \<open>size_t\<close> arithmetic, that is
  \<open>2 ^ 64 - (eventDataOffset - payloadLength)\<close>.
\<close>

theorem push_handlers_no_offset_validation:
  "payloadLength < eventDataOffset \<Longrightarrow>
   fst (handleSensorEvent hpe request payloadLength formatVersion tid eventDataOffset m) = PLDM_SUCCESS \<and>
   new_calls m (snd (handleSensorEvent hpe request payloadLength formatVersion tid eventDataOffset m)) =
     [EM_handlePlatformEvent
       \<lparr>ev_tid = tid, ev_eventId = PLDM_PLATFORM_EVENT_ID_NULL, ev_eventClass = PLDM_SENSOR_EVENT,
        ev_eventData = \<lparr>region = payload request, index = eventDataOffset\<rparr>,
        ev_eventDataSize = payloadLength - eventDataOffset\<rparr>] \<and>
   fst (handleCperEvent hpe request payloadLength formatVersion tid eventDataOffset m) = PLDM_SUCCESS \<and>
   new_calls m (snd (handleCperEvent hpe request payloadLength formatVersion tid eventDataOffset m)) =
     [EM_handlePlatformEvent
       \<lparr>ev_tid = tid, ev_eventId = PLDM_PLATFORM_EVENT_ID_NULL, ev_eventClass = PLDM_CPER_EVENT,
        ev_eventData = \<lparr>region = payload request, index = eventDataOffset\<rparr>,
        ev_eventDataSize = payloadLength - eventDataOffset\<rparr>] \<and>
   fst (handlePldmMessagePollEvent hpe request payloadLength formatVersion tid eventDataOffset m) = PLDM_SUCCESS \<and>
   new_calls m (snd (handlePldmMessagePollEvent hpe request payloadLength formatVersion tid eventDataOffset m)) =
     [EM_handlePlatformEvent
       \<lparr>ev_tid = tid, ev_eventId = PLDM_PLATFORM_EVENT_ID_NULL, ev_eventClass = PLDM_MESSAGE_POLL_EVENT,
        ev_eventData = \<lparr>region = payload request, index = eventDataOffset\<rparr>,
        ev_eventDataSize = payloadLength - eventDataOffset\<rparr>] \<and>
   unat (payloadLength - eventDataOffset) = 2 ^ 64 - (unat eventDataOffset - unat payloadLength)"
  by (simp add: handler_defs new_calls_def unat_wrapped_sub split: prod.splits)

theorem push_handlers_no_offset_validation_witness:
  "(10 :: size_t) < 12 \<and>
   fst (handleCperEvent failing_engine request10 10 1 1 12 manager1) = PLDM_SUCCESS \<and>
   new_calls manager1 (snd (handleCperEvent failing_engine request10 10 1 1 12 manager1)) =
     [EM_handlePlatformEvent
       \<lparr>ev_tid = 1, ev_eventId = 0, ev_eventClass = PLDM_CPER_EVENT,
        ev_eventData = \<lparr>region = payload request10, index = 12\<rparr>,
        ev_eventDataSize = 10 - 12\<rparr>] \<and>
   unat (10 - 12 :: size_t) = 18446744073709551614"
proof -
  have h: "(10 :: size_t) < 12" by simp
  show ?thesis
    using h push_handlers_no_offset_validation [OF h, where hpe = failing_engine
        and request = request10 and formatVersion = 1 and tid = 1 and m = manager1]
    by (simp add: PLDM_PLATFORM_EVENT_ID_NULL_def)
qed

text \<open>The claim as written fails at \<open>payloadLength = 10\<close>, \<open>eventDataOffset = 12\<close>:
  \<open>handleSensorEvent\<close> returns the success code and dispatches once, with the size
  \<open>2 ^ 64 - 2\<close>.\<close>

theorem handleSensorEvent_offset_beyond_length_counterexample:
  "(10 :: size_t) < 12 \<and>
   fst (handleSensorEvent accepting_engine request10 10 1 1 12 manager1) = PLDM_SUCCESS \<and>
   new_calls manager1 (snd (handleSensorEvent accepting_engine request10 10 1 1 12 manager1)) =
     [EM_handlePlatformEvent
       \<lparr>ev_tid = 1, ev_eventId = PLDM_PLATFORM_EVENT_ID_NULL, ev_eventClass = PLDM_SENSOR_EVENT,
        ev_eventData = \<lparr>region = payload request10, index = 12\<rparr>,
        ev_eventDataSize = 0xFFFFFFFFFFFFFFFE\<rparr>]"
  by (simp add: handler_defs new_calls_def accepting_engine_def manager1_def)

text \<open>
  Claim C3. For every input and every behaviour \<open>hpe\<close> of the Event Dispatch Engine, so
  also when the registered handler fails, each push-style event handler
  (\<open>handleSensorEvent\<close>, \<open>handleCperEvent\<close>, \<open>handlePldmMessagePollEvent\<close>) returns the
  success completion code: the code the dispatch produced is not reflected in the
  return value.
\<close>

theorem push_handlers_always_succeed:
  "fst (handleSensorEvent hpe request payloadLength formatVersion tid eventDataOffset m) = PLDM_SUCCESS \<and>
   fst (handleCperEvent hpe request payloadLength formatVersion tid eventDataOffset m) = PLDM_SUCCESS \<and>
   fst (handlePldmMessagePollEvent hpe request payloadLength formatVersion tid eventDataOffset m) = PLDM_SUCCESS"
  by (simp add: handler_defs split: prod.splits)

theorem push_handlers_always_succeed_witness:
  "fst (failing_engine
          \<lparr>ev_tid = 1, ev_eventId = PLDM_PLATFORM_EVENT_ID_NULL, ev_eventClass = PLDM_SENSOR_EVENT,
           ev_eventData = \<lparr>region = payload request10, index = 4\<rparr>, ev_eventDataSize = 6\<rparr>
          (eventManager manager1)) = PLDM_ERROR \<and>
   PLDM_ERROR \<noteq> PLDM_SUCCESS \<and>
   fst (handleSensorEvent failing_engine request10 10 1 1 4 manager1) = PLDM_SUCCESS \<and>
   fst (handleCperEvent failing_engine request10 10 1 1 4 manager1) = PLDM_SUCCESS \<and>
   fst (handlePldmMessagePollEvent failing_engine request10 10 1 1 4 manager1) = PLDM_SUCCESS"
  using push_handlers_always_succeed [of failing_engine request10 10 1 1 4 manager1]
  by (simp add: failing_engine_def PLDM_ERROR_def PLDM_SUCCESS_def)

text \<open>
  Claim C6. Each push-style event handler makes one call of the Event Dispatch Engine,
  with the tuple made of the \<open>tid\<close>, the null event id, the event-class tag of the
  handler (sensor, CPER, message-poll) and the event data given as the pointer into the
  request payload at \<open>eventDataOffset\<close> with the size \<open>payloadLength - eventDataOffset\<close>;
  the engine is left as that dispatch leaves it. When the offset is within the payload
  length and the payload length within the buffer, the bytes so denoted are the slice
  of the payload from \<open>eventDataOffset\<close> up to \<open>payloadLength\<close>.
\<close>

theorem push_handlers_forward_tuple:
  "trace (snd (handleSensorEvent hpe request payloadLength formatVersion tid eventDataOffset m)) =
     trace m @ [EM_handlePlatformEvent
       \<lparr>ev_tid = tid, ev_eventId = PLDM_PLATFORM_EVENT_ID_NULL, ev_eventClass = PLDM_SENSOR_EVENT,
        ev_eventData = \<lparr>region = payload request, index = eventDataOffset\<rparr>,
        ev_eventDataSize = payloadLength - eventDataOffset\<rparr>] \<and>
   trace (snd (handleCperEvent hpe request payloadLength formatVersion tid eventDataOffset m)) =
     trace m @ [EM_handlePlatformEvent
       \<lparr>ev_tid = tid, ev_eventId = PLDM_PLATFORM_EVENT_ID_NULL, ev_eventClass = PLDM_CPER_EVENT,
        ev_eventData = \<lparr>region = payload request, index = eventDataOffset\<rparr>,
        ev_eventDataSize = payloadLength - eventDataOffset\<rparr>] \<and>
   trace (snd (handlePldmMessagePollEvent hpe request payloadLength formatVersion tid eventDataOffset m)) =
     trace m @ [EM_handlePlatformEvent
       \<lparr>ev_tid = tid, ev_eventId = PLDM_PLATFORM_EVENT_ID_NULL, ev_eventClass = PLDM_MESSAGE_POLL_EVENT,
        ev_eventData = \<lparr>region = payload request, index = eventDataOffset\<rparr>,
        ev_eventDataSize = payloadLength - eventDataOffset\<rparr>] \<and>
   eventManager (snd (handleSensorEvent hpe request payloadLength formatVersion tid eventDataOffset m)) =
     snd (hpe \<lparr>ev_tid = tid, ev_eventId = PLDM_PLATFORM_EVENT_ID_NULL, ev_eventClass = PLDM_SENSOR_EVENT,
        ev_eventData = \<lparr>region = payload request, index = eventDataOffset\<rparr>,
        ev_eventDataSize = payloadLength - eventDataOffset\<rparr> (eventManager m)) \<and>
   eventManager (snd (handleCperEvent hpe request payloadLength formatVersion tid eventDataOffset m)) =
     snd (hpe \<lparr>ev_tid = tid, ev_eventId = PLDM_PLATFORM_EVENT_ID_NULL, ev_eventClass = PLDM_CPER_EVENT,
        ev_eventData = \<lparr>region = payload request, index = eventDataOffset\<rparr>,
        ev_eventDataSize = payloadLength - eventDataOffset\<rparr> (eventManager m)) \<and>
   eventManager (snd (handlePldmMessagePollEvent hpe request payloadLength formatVersion tid eventDataOffset m)) =
     snd (hpe \<lparr>ev_tid = tid, ev_eventId = PLDM_PLATFORM_EVENT_ID_NULL, ev_eventClass = PLDM_MESSAGE_POLL_EVENT,
        ev_eventData = \<lparr>region = payload request, index = eventDataOffset\<rparr>,
        ev_eventDataSize = payloadLength - eventDataOffset\<rparr> (eventManager m)) \<and>
   (eventDataOffset \<le> payloadLength \<and> unat payloadLength \<le> length (payload request) \<longrightarrow>
      bytes_at \<lparr>region = payload request, index = eventDataOffset\<rparr> (payloadLength - eventDataOffset) =
        Some (take (unat payloadLength - unat eventDataOffset)
                (drop (unat eventDataOffset) (payload request))))"
  by (auto simp add: handler_defs bytes_at_def unat_sub word_le_nat_alt split: prod.splits)

theorem push_handlers_forward_tuple_witness:
  "(4 :: size_t) \<le> 10 \<and> unat (10 :: size_t) \<le> length (payload request10) \<and>
   trace (snd (handleCperEvent accepting_engine request10 10 1 3 4 manager1)) =
     [EM_handlePlatformEvent
       \<lparr>ev_tid = 3, ev_eventId = 0, ev_eventClass = PLDM_CPER_EVENT,
        ev_eventData = \<lparr>region = [0, 1, 2, 3, 4, 5, 6, 7, 8, 9], index = 4\<rparr>,
        ev_eventDataSize = 6\<rparr>] \<and>
   bytes_at \<lparr>region = [0, 1, 2, 3, 4, 5, 6, 7, 8, 9], index = 4\<rparr> 6 = Some [4, 5, 6, 7, 8, 9]"
  using push_handlers_forward_tuple [of accepting_engine request10 10 1 3 4 manager1]
  by (simp add: request10_def manager1_def PLDM_PLATFORM_EVENT_ID_NULL_def)

text \<open>
  Claim C8. For every call, \<open>handlePolledCperEvent\<close> makes one call of the Event
  Dispatch Engine, with the \<open>eventId\<close> its caller supplied and the CPER event-class tag,
  and returns the completion code that dispatch produced (the push-style handlers
  discard it).
\<close>

theorem handlePolledCperEvent_returns_dispatch_code:
  "(let ev = \<lparr>ev_tid = tid, ev_eventId = eventId, ev_eventClass = PLDM_CPER_EVENT,
              ev_eventData = eventData, ev_eventDataSize = eventDataSize\<rparr>;
        r = handlePolledCperEvent hpe tid eventId eventData eventDataSize m
    in fst r = fst (hpe ev (eventManager m)) \<and>
       trace (snd r) = trace m @ [EM_handlePlatformEvent ev] \<and>
       eventManager (snd r) = snd (hpe ev (eventManager m)))"
  by (simp add: handler_defs split: prod.splits)

theorem handlePolledCperEvent_returns_dispatch_code_witness:
  "fst (handlePolledCperEvent failing_engine 1 5 \<lparr>region = [1, 2, 3], index = 0\<rparr> 3 manager1) = PLDM_ERROR \<and>
   fst (handlePolledCperEvent accepting_engine 1 5 \<lparr>region = [1, 2, 3], index = 0\<rparr> 3 manager1) = PLDM_SUCCESS \<and>
   trace (snd (handlePolledCperEvent failing_engine 1 5 \<lparr>region = [1, 2, 3], index = 0\<rparr> 3 manager1)) =
     [EM_handlePlatformEvent \<lparr>ev_tid = 1, ev_eventId = 5, ev_eventClass = PLDM_CPER_EVENT,
              ev_eventData = \<lparr>region = [1, 2, 3], index = 0\<rparr>, ev_eventDataSize = 3\<rparr>]"
  using handlePolledCperEvent_returns_dispatch_code [where hpe = failing_engine and tid = 1
      and eventId = 5 and eventData = "\<lparr>region = [1, 2, 3], index = 0\<rparr>" and eventDataSize = 3
      and m = manager1]
    handlePolledCperEvent_returns_dispatch_code [where hpe = accepting_engine and tid = 1
      and eventId = 5 and eventData = "\<lparr>region = [1, 2, 3], index = 0\<rparr>" and eventDataSize = 3
      and m = manager1]
  by (simp add: Let_def failing_engine_def accepting_engine_def manager1_def)

section \<open>Availability transitions\<close>



text \<open>
  Claim C4. For every TID that is not in the registry and every availability value,
  \<open>updateAvailableState\<close> returns (the model is a total function) and changes nothing:
  the availability copy of the Sensor Polling Engine and that of the Event Dispatch
  Engine are as before, no call reaches either engine, and the whole facade state is
  unchanged.
\<close>

theorem updateAvailableState_unknown_tid:
  "\<not> (tid \<in> dom (termini m)) \<Longrightarrow>
   updateAvailableState tid state m = m \<and>
   availableState (sensorManager (updateAvailableState tid state m)) = availableState (sensorManager m) \<and>
   eventAvailableState (eventManager (updateAvailableState tid state m)) =
     eventAvailableState (eventManager m) \<and>
   new_calls m (updateAvailableState tid state m) = []"
  by (simp add: updateAvailableState_def new_calls_def)

theorem updateAvailableState_unknown_tid_witness:
  "\<not> (9 \<in> dom (termini manager1)) \<and> updateAvailableState 9 True manager1 = manager1 \<and>
   availableState (sensorManager (updateAvailableState 9 True manager1)) 9 = None \<and>
   eventAvailableState (eventManager (updateAvailableState 9 True manager1)) 9 = None"
proof -
  have h: "\<not> (9 \<in> dom (termini manager1))" by (simp add: manager1_def)
  show ?thesis
    using h updateAvailableState_unknown_tid [OF h, of True]
    by (simp add: manager1_def sensorManager1_def)
qed

text \<open>
  Claim C5. For every endpoint that resolves to a TID present in the registry, after
  \<open>updateMctpEndpointAvailability\<close> with \<open>False\<close> the availability stored for that TID by
  the Sensor Polling Engine is false (and \<open>getAvailableState\<close> reports false), the
  availability stored for it by the Event Dispatch Engine is false, and every sensor of
  the TID is marked unavailable.
\<close>

theorem availability_convergence:
  "toTid (terminusManager m) ep = Some tid \<Longrightarrow> tid \<in> dom (termini m) \<Longrightarrow>
   availableState (sensorManager (updateMctpEndpointAvailability ep False m)) tid = Some False \<and>
   fst (getAvailableState tid (sensorManager (updateMctpEndpointAvailability ep False m))) = False \<and>
   eventAvailableState (eventManager (updateMctpEndpointAvailability ep False m)) tid = Some False \<and>
   sensorReadings (termini (updateMctpEndpointAvailability ep False m)) tid =
     replicate (sensorCount (termini m) tid) Unavailable"
  by (simp add: termini_unavailable sensorManager_unavailable eventManager_unavailable
      sensorReadings_disableTerminusSensors SensorManager_updateAvailableState_def
      EventManager_updateAvailableState_def getAvailableState_def map_subscript_def)

theorem availability_convergence_witness:
  "toTid (terminusManager manager1) 7 = Some 1 \<and> 1 \<in> dom (termini manager1) \<and>
   availableState (sensorManager manager1) 1 = Some True \<and>
   eventAvailableState (eventManager manager1) 1 = Some True \<and>
   availableState (sensorManager (updateMctpEndpointAvailability 7 False manager1)) 1 = Some False \<and>
   eventAvailableState (eventManager (updateMctpEndpointAvailability 7 False manager1)) 1 = Some False \<and>
   sensorReadings (termini (updateMctpEndpointAvailability 7 False manager1)) 1 =
     [Unavailable, Unavailable]"
proof -
  have h1: "toTid (terminusManager manager1) 7 = Some 1" by (simp add: manager1_def)
  have h2: "1 \<in> dom (termini manager1)" by (simp add: manager1_def)
  show ?thesis
    using h1 h2 availability_convergence [OF h1 h2]
    by (simp add: manager1_def sensorManager1_def sensorCount_def)
qed

text \<open>
  Claim C10. Every call of \<open>updateMctpEndpointAvailability\<close> forwards the pair of the
  endpoint and the availability to the Terminus Lifecycle Coordinator exactly once,
  whether or not the endpoint resolves to a TID, and after every call it makes on the
  polling engine: the calls the run adds to the trace are the engine calls followed by
  the one Coordinator call, which is the last and the only one of its kind.
\<close>

theorem forwards_to_coordinator_once_last:
  "take (length (trace m)) (trace (updateMctpEndpointAvailability ep a m)) = trace m \<and>
   new_calls m (updateMctpEndpointAvailability ep a m) =
     engine_calls ep a m @ [TM_updateMctpEndpointAvailability ep a] \<and>
   filter is_TM_call (new_calls m (updateMctpEndpointAvailability ep a m)) =
     [TM_updateMctpEndpointAvailability ep a] \<and>
   last (new_calls m (updateMctpEndpointAvailability ep a m)) =
     TM_updateMctpEndpointAvailability ep a"
  by (simp add: new_calls_def trace_updateMctpEndpointAvailability no_TM_in_engine_calls)

theorem forwards_to_coordinator_once_last_witness:
  "new_calls manager1 (updateMctpEndpointAvailability 7 False manager1) =
     [SM_disableTerminusSensors 1, SM_updateAvailableState 1 False, EM_updateAvailableState 1 False,
      TM_updateMctpEndpointAvailability 7 False] \<and>
   new_calls manager1 (updateMctpEndpointAvailability 8 True manager1) =
     [TM_updateMctpEndpointAvailability 8 True]"
  using forwards_to_coordinator_once_last [of manager1 7 False]
    forwards_to_coordinator_once_last [of manager1 8 True]
  by (simp add: engine_calls_def manager1_def)

section \<open>The polling engine\<close>

text \<open>
  Claim C7. For every TID and every history of the engine since its construction, at
  most one polling task of the TID is live; calling \<open>startPolling\<close> twice in a row for
  the TID leaves exactly one live task, and the second call changes nothing.
\<close>

theorem one_live_polling_task:
  "liveTaskCount (run ops (newSensorManager t)) tid \<le> 1 \<and>
   liveTaskCount (startPolling tid (startPolling tid (run ops (newSensorManager t)))) tid = 1 \<and>
   startPolling tid (startPolling tid (run ops (newSensorManager t))) =
     startPolling tid (run ops (newSensorManager t))"
proof -
  have c: "handle_consistent (run ops (newSensorManager t)) tid"
    by (rule handle_consistent_run [OF handle_consistent_new])
  show ?thesis
    using consistent_live_le [OF c] consistent_start_live [OF c]
    by (simp add: startPolling_idem)
qed

theorem one_live_polling_task_witness:
  "liveTaskCount (run [StartPolling 5, TaskCompleted 5 0, StopPolling 5] (newSensorManager 1000)) 5 = 0 \<and>
   liveTaskCount (startPolling 5 (startPolling 5
     (run [StartPolling 5, TaskCompleted 5 0, StopPolling 5] (newSensorManager 1000)))) 5 = 1"
  using one_live_polling_task [of "[StartPolling 5, TaskCompleted 5 0, StopPolling 5]" 1000 5]
  by (simp add: engine_defs newSensorManager_def liveTaskCount_def)

text \<open>
  Claim C9. For every TID whose entry is absent when a run of \<open>updateAvailableState\<close>
  calls on the Sensor Polling Engine starts (as in the engine as constructed) and for
  which none of those calls is made, \<open>getAvailableState\<close> returns false; and on every
  state and for every TID the query leaves the engine, its availability map included,
  unchanged.
\<close>

theorem getAvailableState_default_false:
  "availableState sm tid = None \<Longrightarrow> \<not> (tid \<in> set (map fst ups)) \<Longrightarrow>
   getAvailableState tid (updateAvailableStates ups sm) = (False, updateAvailableStates ups sm) \<and>
   snd (getAvailableState tid' sm') = sm'"
  by (auto simp: getAvailableState_def map_subscript_def availableState_updateAvailableStates
      split: option.splits)

theorem getAvailableState_default_false_witness:
  "availableState (newSensorManager 1000) 3 = None \<and>
   \<not> ((3 :: pldm_tid_t) \<in> set (map fst [(1, True), (2, False)])) \<and>
   getAvailableState 3 (updateAvailableStates [(1, True), (2, False)] (newSensorManager 1000)) =
     (False, updateAvailableStates [(1, True), (2, False)] (newSensorManager 1000)) \<and>
   getAvailableState 1 (updateAvailableStates [(1, True), (2, False)] (newSensorManager 1000)) =
     (True, updateAvailableStates [(1, True), (2, False)] (newSensorManager 1000))"
proof -
  have h1: "availableState (newSensorManager 1000) 3 = None" by (simp add: newSensorManager_def)
  have h2: "\<not> ((3 :: pldm_tid_t) \<in> set (map fst [(1, True), (2, False)]))" by simp
  show ?thesis
    using h1 h2 getAvailableState_default_false [OF h1 h2,
        where tid' = 1 and sm' = "updateAvailableStates [(1, True), (2, False)] (newSensorManager 1000)"]
    by (simp add: getAvailableState_def map_subscript_def SensorManager_updateAvailableState_def
        newSensorManager_def)
qed

end
